theory Spec2Isabelle
  imports Main "HOL-Library.AList" "HOL-Library.Sublist"
begin

section \<open>Python values, exceptions and dictionaries\<close>

text \<open>
  The development embeds \<^verbatim>\<open>terms/network.py\<close>. Exceptions are values: a function
  that can raise returns \<open>py_error + 'a\<close>, with \<open>Inl\<close> for the exception. The last
  constructor stands for whatever an external callable raises.

  The file is read as Python 2 reads it: what it determines is modelled as written, a
  call with the wrong number of arguments raising TypeError among it. What it leaves
  open is a parameter: the modules it imports, the names it reads without binding them,
  and the attributes of mapped classes that it uses without declaring them.
\<close>

datatype py_error =
    TypeError | NameError | AttributeError | KeyError | IndexError
  | NotImplementedError | RuntimeError
  | NoResultFound | MultipleResultsFound | OperationalError | Raised nat

text \<open>
  A Term is an object of the lexicon (module \<^verbatim>\<open>terms.terms\<close>); the network only holds
  references to terms, so a term is its identity. Facts are terms too: \<^verbatim>\<open>resolve\<close> walks a
  fact with \<^verbatim>\<open>get_object\<close> exactly as it walks a term.
\<close>

type_synonym term_id = nat

text \<open>
  What \<^verbatim>\<open>resolve\<close> returns and what a node stores: a boolean (NegNode), a term (TermNode,
  VerbNode) or a string (LabelNode). Python's \<^verbatim>\<open>None\<close> is \<open>None\<close> of the option type.
\<close>

datatype pvalue = VBool bool | VTerm term_id | VStr string

text \<open>
  Keys of a Match: \<^verbatim>\<open>Node.dispatch\<close> stores under the integer \<^verbatim>\<open>child.var\<close>,
  \<^verbatim>\<open>Rule.dispatch\<close> under the name of a variable.
\<close>

datatype dkey = KInt nat | KStr string

text \<open>
  A dict is an association list with distinct keys, in iteration order: assignment to a
  key that is present replaces its value in place, assignment to a new key appends.
\<close>

type_synonym pdict = "(dkey \<times> pvalue) list"

definition contains :: "pdict \<Rightarrow> dkey \<Rightarrow> bool" where
  "contains d k = (map_of d k \<noteq> None)"

definition getitem :: "pdict \<Rightarrow> dkey \<Rightarrow> py_error + pvalue" where
  "getitem d k = (case map_of d k of None \<Rightarrow> Inl KeyError | Some v \<Rightarrow> Inr v)"

definition setitem :: "pdict \<Rightarrow> dkey \<Rightarrow> pvalue \<Rightarrow> pdict" where
  "setitem d k v = AList.update k v d"

section \<open>Match\<close>

type_synonym path = "string list"

text \<open>
  \<^verbatim>\<open>class Match(dict)\<close>: the dict itself (\<open>match_items\<close>) and the attributes
  \<^verbatim>\<open>fact\<close>, \<^verbatim>\<open>paths\<close>, \<^verbatim>\<open>prem\<close>.
\<close>

record pmatch =
  match_fact :: term_id
  match_paths :: "path list"
  match_prem :: "nat option"
  match_items :: pdict

text \<open>\<^verbatim>\<open>Match.__init__(self, fact, prem=None)\<close>\<close>

definition Match :: "term_id \<Rightarrow> nat option \<Rightarrow> pmatch" where
  "Match f p = \<lparr>match_fact = f, match_paths = [], match_prem = p, match_items = []\<rparr>"

text \<open>
  \<^verbatim>\<open>Match.merge(self, m)\<close>. The loop runs over \<^verbatim>\<open>self.items() + m.items()\<close>, the
  concatenation of two lists as Python 2 has them (in Python 3 the two views cannot be
  added and the expression raises TypeError on every call). For a key that is in \<^verbatim>\<open>m\<close> the test reads \<^verbatim>\<open>self[k]\<close>, which raises KeyError
  when \<^verbatim>\<open>self\<close> lacks the key. The result is the exception, or \<open>None\<close> for the returned
  \<^verbatim>\<open>False\<close>, or the new match.
\<close>

fun merge_loop :: "pmatch \<Rightarrow> pmatch \<Rightarrow> (dkey \<times> pvalue) list \<Rightarrow> pmatch \<Rightarrow> py_error + pmatch option" where
  "merge_loop self m [] new_match = Inr (Some new_match)"
| "merge_loop self m ((k, v) # kvs) new_match =
     (if contains (match_items m) k then
        (case getitem (match_items self) k of
           Inl e \<Rightarrow> Inl e
         | Inr sv \<Rightarrow>
             if sv \<noteq> v then Inr None
             else merge_loop self m kvs
                    (new_match\<lparr>match_items := setitem (match_items new_match) k v\<rparr>))
      else merge_loop self m kvs
             (new_match\<lparr>match_items := setitem (match_items new_match) k v\<rparr>))"

definition merge :: "pmatch \<Rightarrow> pmatch \<Rightarrow> py_error + pmatch option" where
  "merge self m =
     merge_loop self m (match_items self @ match_items m) (Match (match_fact self) None)"

section \<open>The lexicon, the fact set and the free names\<close>

text \<open>
  The modules \<^verbatim>\<open>terms.terms\<close>, \<^verbatim>\<open>terms.words\<close>, \<^verbatim>\<open>terms.patterns\<close> and
  \<^verbatim>\<open>terms.factset\<close> are not part of the file; what the network uses of them is a
  parameter. So are the names the file reads without binding them: \<^verbatim>\<open>w\<close>
  (in \<^verbatim>\<open>get_or_create_node\<close> and \<^verbatim>\<open>VerbNode.resolve\<close>), \<^verbatim>\<open>args\<close> (in \<^verbatim>\<open>Condition.test\<close>) and
  \<^verbatim>\<open>new\<close> (in \<^verbatim>\<open>Rule.dispatch\<close>): \<open>None\<close> is the unbound name, whose use raises NameError.

  \<^item> \<open>get_object\<close>: \<^verbatim>\<open>term.get_object(segment)\<close>, \<open>None\<close> when it raises AttributeError;
  \<^item> \<open>term_true\<close>, \<open>term_name\<close>, \<open>term_type\<close>: the attributes \<^verbatim>\<open>true\<close>, \<^verbatim>\<open>name\<close>, \<^verbatim>\<open>term_type\<close>;
  \<^item> \<open>term_var\<close>: the column test \<^verbatim>\<open>Term.var > 0\<close>;
  \<^item> \<open>term_bases\<close>: the rows of \<^verbatim>\<open>term_to_base\<close> for a term;
  \<^item> \<open>get_bases\<close>, \<open>isa_thing\<close>: \<^verbatim>\<open>get_bases(t)\<close> and \<^verbatim>\<open>isa(t, thing)\<close>;
  \<^item> \<open>varpat\<close>: \<^verbatim>\<open>patterns.varpat.match(name)\<close>, giving \<^verbatim>\<open>int(m.group(3))\<close> on a match;
  \<^item> \<open>get_paths\<close>: \<^verbatim>\<open>factset.get_paths\<close>;
  \<^item> \<open>substitute\<close>: \<^verbatim>\<open>con.substitute(match)\<close> of a consequence;
  \<^item> \<open>cond_fun\<close>: the callable of a condition, found from its \<^verbatim>\<open>fpath\<close>; it returns a truth
    value or raises;
  \<^item> \<open>free_args\<close>: the objects of the list \<^verbatim>\<open>args\<close>, each given by its \<^verbatim>\<open>solve(match)\<close>;
  \<^item> \<open>lexicon_initialize\<close>, \<open>factset_initialize\<close>: the exception the call raises, if any.
\<close>

record env =
  get_object :: "term_id \<Rightarrow> string \<Rightarrow> term_id option"
  term_true :: "term_id \<Rightarrow> bool"
  term_name :: "term_id \<Rightarrow> string"
  term_type :: "term_id \<Rightarrow> term_id"
  term_var :: "term_id \<Rightarrow> bool"
  term_bases :: "term_id \<Rightarrow> term_id list"
  get_bases :: "term_id \<Rightarrow> term_id list"
  isa_thing :: "term_id \<Rightarrow> bool"
  varpat :: "string \<Rightarrow> nat option"
  get_paths :: "term_id \<Rightarrow> path list"
  substitute :: "term_id \<Rightarrow> pdict \<Rightarrow> py_error + term_id"
  cond_fun :: "string \<Rightarrow> pvalue option list \<Rightarrow> py_error + bool"
  free_args :: "(pdict \<Rightarrow> py_error + pvalue option) list option"
  lexicon_initialize :: "py_error option"
  factset_initialize :: "py_error option"
  free_w :: "term_id option"
  free_new :: "bool option"

section \<open>Nodes\<close>

text \<open>The polymorphic identities of the node classes, and \<^verbatim>\<open>Network._get_nclass\<close>.\<close>

datatype ntype = RootNode | NegNode | TermNode | VerbNode | LabelNode

definition get_nclass :: "string \<Rightarrow> ntype option" where
  "get_nclass s =
     (if s = ''_root'' then Some RootNode
      else if s = ''_neg'' then Some NegNode
      else if s = ''_term'' then Some TermNode
      else if s = ''_verb'' then Some VerbNode
      else if s = ''_label'' then Some LabelNode
      else None)"

text \<open>
  A row of the table \<^verbatim>\<open>nodes\<close> joined with the table of its class: \<^verbatim>\<open>var\<close> defaults to
  0, \<^verbatim>\<open>child_path\<close> is the empty tuple until it is set, a root has no value and no parent.
\<close>

record node =
  node_id :: nat
  node_ntype :: ntype
  node_var :: nat
  node_value :: "pvalue option"
  node_parent :: "nat option"
  child_path :: path

text \<open>
  A row of \<^verbatim>\<open>premnodes\<close>. The class declares \<^verbatim>\<open>parent\<close> and \<^verbatim>\<open>rules\<close>;
  \<^verbatim>\<open>PremNode.dispatch\<close> also names \<^verbatim>\<open>self.matches\<close>, kept here as a list of bindings.
\<close>

record premnode =
  prem_id :: nat
  prem_parent :: nat
  prem_rules :: "nat list"
  prem_matches :: "pdict list"

fun walk :: "env \<Rightarrow> term_id \<Rightarrow> string list \<Rightarrow> term_id option" where
  "walk e t [] = Some t"
| "walk e t (segment # rest) =
     (case get_object e t segment of None \<Rightarrow> None | Some u \<Rightarrow> walk e u rest)"

text \<open>
  \<^verbatim>\<open>cls.resolve(term, path)\<close> for each class. The loops run over \<^verbatim>\<open>path[:-1]\<close>; an
  AttributeError inside them gives \<^verbatim>\<open>None\<close>. LabelNode returns \<^verbatim>\<open>path[-2]\<close>, which raises
  IndexError on a path of fewer than two segments. RootNode inherits the abstract method
  of \<^verbatim>\<open>Node\<close>, which raises NotImplementedError.
\<close>

definition resolve :: "env \<Rightarrow> ntype \<Rightarrow> term_id \<Rightarrow> path \<Rightarrow> py_error + pvalue option" where
  "resolve e cls t p =
     (case cls of
        RootNode \<Rightarrow> Inl NotImplementedError
      | NegNode \<Rightarrow>
          (case walk e t (butlast p) of
             None \<Rightarrow> Inr None
           | Some u \<Rightarrow> Inr (Some (VBool (term_true e u))))
      | TermNode \<Rightarrow>
          (case walk e t (butlast p) of
             None \<Rightarrow> Inr None
           | Some u \<Rightarrow> Inr (Some (VTerm u)))
      | VerbNode \<Rightarrow>
          (case walk e t (butlast p) of
             None \<Rightarrow> Inr None
           | Some u \<Rightarrow>
               if varpat e (term_name e u) \<noteq> None then
                 (case free_w e of None \<Rightarrow> Inl NameError | Some w \<Rightarrow> Inr (Some (VTerm w)))
               else Inr (Some (VTerm (term_type e u))))
      | LabelNode \<Rightarrow>
          (if length p < 2 then Inl IndexError
           else Inr (Some (VStr (p ! (length p - 2))))))"

section \<open>Rules and the network\<close>

text \<open>\<^verbatim>\<open>Varname\<close>, \<^verbatim>\<open>PVarname\<close> and \<^verbatim>\<open>Condition\<close> rows, with the columns the classes declare.\<close>

record varname =
  vn_name_num :: nat
  vn_var :: term_id
  vn_rule :: nat

record pvarname =
  pv_prem :: nat
  pv_num :: nat
  pv_varname :: varname

record condition =
  cond_id :: nat
  cond_fpath :: string

text \<open>
  A rule. \<^verbatim>\<open>add_rule\<close> assigns the attribute \<^verbatim>\<open>conds\<close>, \<^verbatim>\<open>Rule.dispatch\<close> reads the
  relationship \<^verbatim>\<open>conditions\<close>: they are two fields. \<^verbatim>\<open>consecuences\<close> is named by both
  methods. \<open>rule_pvn_dict\<close> is the instance attribute \<^verbatim>\<open>_pvn_dict\<close> of \<^verbatim>\<open>_get_vname\<close>,
  \<open>None\<close> while the attribute does not exist; its keys are the pairs
  \<^verbatim>\<open>(match.prem, num)\<close>.
\<close>

type_synonym pvn_key = "nat option \<times> dkey"

record rule =
  rule_id :: nat
  rule_conds :: "condition list"
  rule_conditions :: "condition list"
  rule_consecuences :: "term_id list"
  rule_pvars :: "pvarname list"
  rule_pvn_dict :: "(pvn_key \<times> pvarname) list option"

text \<open>
  The Network object and its store: whether the tables exist, the rows of nodes, premise
  nodes and rules in order of insertion, the facts of the fact set, the attribute
  \<^verbatim>\<open>self.root\<close> (the id of a node) and the next value of the id sequences.
\<close>

record network =
  net_tables :: bool
  net_nodes :: "node list"
  net_prems :: "premnode list"
  net_rules :: "rule list"
  net_facts :: "term_id list"
  net_root :: "nat option"
  net_next :: nat

text \<open>\<^verbatim>\<open>parent.children.all()\<close> and \<^verbatim>\<open>parent.terminal\<close>.\<close>

definition children_of :: "network \<Rightarrow> node \<Rightarrow> node list" where
  "children_of net parent =
     filter (\<lambda>c. node_parent c = Some (node_id parent)) (net_nodes net)"

definition terminal_of :: "network \<Rightarrow> node \<Rightarrow> premnode option" where
  "terminal_of net n = find (\<lambda>p. prem_parent p = node_id n) (net_prems net)"

section \<open>Candidate children\<close>

text \<open>
  The children with a class and a stored value: \<^verbatim>\<open>parent.children.join(cls,
  Node.id==cls.nid).filter(cls.value==value)\<close>.
\<close>

definition children_with :: "network \<Rightarrow> node \<Rightarrow> ntype \<Rightarrow> pvalue \<Rightarrow> node list" where
  "children_with net parent cls v =
     filter (\<lambda>c. node_ntype c = cls \<and> node_value c = Some v) (children_of net parent)"

text \<open>
  The loop \<^verbatim>\<open>for k, v in match.items(): if v == value: ... break\<close>: the first key bound to
  the value, and the children \<^verbatim>\<open>parent.children.filter(Node.var==k)\<close>.
\<close>

definition first_bound :: "pdict \<Rightarrow> pvalue \<Rightarrow> dkey option" where
  "first_bound d v = map_option fst (find (\<lambda>kv. snd kv = v) d)"

definition children_by_var :: "network \<Rightarrow> node \<Rightarrow> dkey \<Rightarrow> node list" where
  "children_by_var net parent k =
     (case k of
        KInt n \<Rightarrow> filter (\<lambda>c. node_var c = n) (children_of net parent)
      | KStr s \<Rightarrow> [])"

text \<open>
  The children of a class whose value is a variable term (\<^verbatim>\<open>Term.var>0\<close>), then the two
  filters over them: the type of the term is one of \<open>ids\<close>, and the term has a row in
  \<^verbatim>\<open>term_to_base\<close> whose base is one of \<open>ids\<close>.
\<close>

definition var_children :: "env \<Rightarrow> network \<Rightarrow> node \<Rightarrow> ntype \<Rightarrow> node list" where
  "var_children e net parent cls =
     filter (\<lambda>c. node_ntype c = cls \<and>
                 (case node_value c of Some (VTerm u) \<Rightarrow> term_var e u | _ \<Rightarrow> False))
       (children_of net parent)"

definition type_in :: "env \<Rightarrow> term_id list \<Rightarrow> node list \<Rightarrow> node list" where
  "type_in e ids cs =
     filter (\<lambda>c. case node_value c of Some (VTerm u) \<Rightarrow> term_type e u \<in> set ids | _ \<Rightarrow> False) cs"

definition base_in :: "env \<Rightarrow> term_id list \<Rightarrow> node list \<Rightarrow> node list" where
  "base_in e ids cs =
     filter (\<lambda>c. case node_value c of
                   Some (VTerm u) \<Rightarrow> list_ex (\<lambda>b. b \<in> set ids) (term_bases e u)
                 | _ \<Rightarrow> False) cs"

text \<open>
  \<^verbatim>\<open>cls.get_children(parent, match, value, network)\<close> for each class: the list (or tuple) of
  queries it returns. TermNode and VerbNode read \<^verbatim>\<open>value.term_type\<close>, which raises
  AttributeError on a value that is not a term.
\<close>

definition get_children ::
  "env \<Rightarrow> network \<Rightarrow> ntype \<Rightarrow> node \<Rightarrow> pdict \<Rightarrow> pvalue \<Rightarrow> py_error + node list list" where
  "get_children e net cls parent m v =
     (case cls of
        RootNode \<Rightarrow> Inl NotImplementedError
      | NegNode \<Rightarrow> Inr [children_with net parent NegNode v]
      | LabelNode \<Rightarrow> Inr [children_of net parent]
      | TermNode \<Rightarrow>
          (case first_bound m v of
             Some k \<Rightarrow> Inr [children_with net parent TermNode v, children_by_var net parent k]
           | None \<Rightarrow>
               (case v of
                  VTerm t \<Rightarrow>
                    (let type_ids = term_type e t # get_bases e (term_type e t);
                         vchildren = type_in e type_ids (var_children e net parent TermNode)
                     in Inr [children_with net parent TermNode v,
                             if \<not> isa_thing e t
                             then base_in e (t # get_bases e t) vchildren
                             else vchildren])
                | _ \<Rightarrow> Inl AttributeError))
      | VerbNode \<Rightarrow>
          (case first_bound m v of
             Some k \<Rightarrow>
               Inr [children_with net parent VerbNode v, [], children_by_var net parent k]
           | None \<Rightarrow>
               (case v of
                  VTerm t \<Rightarrow>
                    (let type_ids = term_type e t # get_bases e (term_type e t);
                         chvars = var_children e net parent VerbNode
                     in Inr [children_with net parent VerbNode v,
                             type_in e type_ids chvars,
                             base_in e type_ids chvars])
                | _ \<Rightarrow> Inl AttributeError)))"

text \<open>
  What \<^verbatim>\<open>Node.dispatch\<close> binds to \<^verbatim>\<open>children\<close>: the flat list of
  \<^verbatim>\<open>parent.children.all()\<close> when the value is \<^verbatim>\<open>None\<close>, the queries of
  \<^verbatim>\<open>get_children\<close> otherwise, together with the value that was resolved.
\<close>

datatype selection = Flat "node list" | Queries pvalue "node list list"

text \<open>
  Lines 207 to 214 of \<^verbatim>\<open>Node.dispatch\<close>, for a parent whose \<^verbatim>\<open>child_path\<close> is not
  empty: the class of the last segment (\<^verbatim>\<open>None\<close> has no attribute \<^verbatim>\<open>resolve\<close>), the resolved
  value and the children selected for it.
\<close>

definition select_children ::
  "env \<Rightarrow> network \<Rightarrow> node \<Rightarrow> pmatch \<Rightarrow> py_error + selection" where
  "select_children e net parent m =
     (case get_nclass (last (child_path parent)) of
        None \<Rightarrow> Inl AttributeError
      | Some cls \<Rightarrow>
          (case resolve e cls (match_fact m) (child_path parent) of
             Inl x \<Rightarrow> Inl x
           | Inr None \<Rightarrow> Inr (Flat (children_of net parent))
           | Inr (Some v) \<Rightarrow>
               (case get_children e net cls parent (match_items m) v of
                  Inl x \<Rightarrow> Inl x
                | Inr qs \<Rightarrow> Inr (Queries v qs))))"

section \<open>Dispatch\<close>

text \<open>
  Matches are objects: \<^verbatim>\<open>match.copy()\<close> makes a new one and \<^verbatim>\<open>new_match[k] = v\<close> writes
  into it. The heap lists the Match objects in order of creation, and a reference to a
  Match is its index.
\<close>

type_synonym heap = "pmatch list"

text \<open>\<^verbatim>\<open>Match.copy(self)\<close>: a new object with the fact, the items, \<^verbatim>\<open>prem\<close> and a copy of \<^verbatim>\<open>paths\<close>.\<close>

definition Match_copy :: "heap \<Rightarrow> nat \<Rightarrow> heap \<times> nat" where
  "Match_copy h a =
     (h @ [\<lparr>match_fact = match_fact (h ! a), match_paths = match_paths (h ! a),
            match_prem = match_prem (h ! a), match_items = match_items (h ! a)\<rparr>],
      length h)"

text \<open>
  Lines 217 to 220 of \<^verbatim>\<open>Node.dispatch\<close>: the match handed to a child. The test
  \<^verbatim>\<open>child.var not in match\<close> reads the caller's match, the assignment writes the copy.
\<close>

definition child_match :: "heap \<Rightarrow> nat \<Rightarrow> node \<Rightarrow> pvalue \<Rightarrow> heap \<times> nat" where
  "child_match h a child v =
     (case Match_copy h a of
        (h1, new_match) \<Rightarrow>
          if node_var child \<noteq> 0 then
            if \<not> contains (match_items (h ! a)) (KInt (node_var child)) then
              (h1[new_match := (h1 ! new_match)
                   \<lparr>match_items :=
                      setitem (match_items (h1 ! new_match)) (KInt (node_var child)) v\<rparr>],
               new_match)
            else (h1, new_match)
          else (h1, new_match))"

text \<open>
  \<^verbatim>\<open>PremNode.dispatch(self, match, network)\<close>. Its second statement is \<^verbatim>\<open>m = Match()\<close>; the
  only \<^verbatim>\<open>Match\<close> of the module is the dict subclass, whose \<^verbatim>\<open>__init__\<close> requires
  \<^verbatim>\<open>fact\<close>, so the call raises TypeError and nothing after it runs: not the append to
  \<^verbatim>\<open>self.matches\<close>, not the join over \<^verbatim>\<open>rule.prems\<close> (whose lines 403 and 407 lack
  their colon), not \<^verbatim>\<open>rule.dispatch(m)\<close>.
\<close>

definition PremNode_dispatch :: "premnode \<Rightarrow> pmatch \<Rightarrow> network \<Rightarrow> py_error" where
  "PremNode_dispatch self m net = TypeError"

text \<open>A \<^verbatim>\<open>for\<close> loop whose body may raise: the first exception ends the loop.\<close>

fun for_each ::
  "('a \<Rightarrow> 's \<Rightarrow> py_error option \<times> 's) \<Rightarrow> 'a list \<Rightarrow> 's \<Rightarrow> py_error option \<times> 's" where
  "for_each body [] h = (None, h)"
| "for_each body (x # xs) h =
     (case body x h of
        (Some err, h1) \<Rightarrow> (Some err, h1)
      | (None, h1) \<Rightarrow> for_each body xs h1)"

text \<open>
  The calls of line 221, \<^verbatim>\<open>cls.dispatch(child, new_match, network)\<close>, are recorded as
  they are made: the child, the reference of the caller's match, the reference of the
  match passed to the child, and the resolved value. The record is no part of the
  program; it is there to state what each child receives.
\<close>

type_synonym call = "node \<times> nat \<times> nat \<times> pvalue"

type_synonym dstate = "heap \<times> call list"

text \<open>
  \<^verbatim>\<open>Node.dispatch(parent, match, network)\<close>. The first argument bounds the depth of the
  recursion, as the interpreter's recursion limit does: beyond it the call raises
  RuntimeError. The result is the exception raised, if any, the heap and the calls made.

  When the value is \<^verbatim>\<open>None\<close>, \<^verbatim>\<open>children\<close> is a list of nodes, and the inner loop
  \<^verbatim>\<open>for child in ch\<close> iterates over a node: a TypeError, unless the list is empty.
\<close>

fun Node_dispatch ::
  "nat \<Rightarrow> env \<Rightarrow> network \<Rightarrow> node \<Rightarrow> nat \<Rightarrow> dstate \<Rightarrow> py_error option \<times> dstate" where
  "Node_dispatch 0 e net parent a st = (Some RuntimeError, st)"
| "Node_dispatch (Suc n) e net parent a st =
     (case (if child_path parent \<noteq> [] then
              (case select_children e net parent (fst st ! a) of
                 Inl err \<Rightarrow> (Some err, st)
               | Inr (Flat cs) \<Rightarrow> if cs = [] then (None, st) else (Some TypeError, st)
               | Inr (Queries v qs) \<Rightarrow>
                   for_each
                     (\<lambda>ch. for_each
                        (\<lambda>child st1.
                           case child_match (fst st1) a child v of
                             (h2, new_match) \<Rightarrow>
                               Node_dispatch n e net child new_match
                                 (h2, snd st1 @ [(child, a, new_match, v)]))
                        ch)
                     qs st)
            else (None, st)) of
        (Some err, st3) \<Rightarrow> (Some err, st3)
      | (None, st3) \<Rightarrow>
          (case terminal_of net parent of
             None \<Rightarrow> (None, st3)
           | Some terminal \<Rightarrow> (Some (PremNode_dispatch terminal (fst st3 ! a) net), st3)))"



section \<open>Facts, initialisation\<close>

definition node_by_id :: "network \<Rightarrow> nat \<Rightarrow> node option" where
  "node_by_id net i = find (\<lambda>n. node_id n = i) (net_nodes net)"

text \<open>The node \<^verbatim>\<open>self.root\<close>; reading the attribute before it is set raises AttributeError.\<close>

definition root_node :: "network \<Rightarrow> node option" where
  "root_node net = (case net_root net of None \<Rightarrow> None | Some i \<Rightarrow> node_by_id net i)"

text \<open>
  Modelled from the spec: \<^verbatim>\<open>FactSet.add_fact\<close>, of the absent module \<^verbatim>\<open>terms.factset\<close>,
  is the spec's \<^verbatim>\<open>persist(fact)\<close>, a durable append to the facts.
\<close>

definition factset_add_fact :: "network \<Rightarrow> term_id \<Rightarrow> network" where
  "factset_add_fact net f = net\<lparr>net_facts := net_facts net @ [f]\<rparr>"

text \<open>
  \<^verbatim>\<open>Network.add_fact(self, fact)\<close>. With a root that has a \<^verbatim>\<open>child_path\<close> it calls
  \<^verbatim>\<open>cls.dispatch(self.root, m, fact, self)\<close>: four arguments for the classmethod
  \<^verbatim>\<open>dispatch(cls, parent, match, network)\<close>, a TypeError (an AttributeError when
  \<^verbatim>\<open>_get_nclass\<close> gave \<^verbatim>\<open>None\<close>), raised before \<^verbatim>\<open>self.factset.add_fact(fact)\<close>.
\<close>

definition add_fact :: "env \<Rightarrow> network \<Rightarrow> term_id \<Rightarrow> py_error option \<times> network" where
  "add_fact e net f =
     (case root_node net of
        None \<Rightarrow> (Some AttributeError, net)
      | Some root \<Rightarrow>
          if child_path root \<noteq> [] then
            (case get_nclass (last (child_path root)) of
               None \<Rightarrow> (Some AttributeError, net)
             | Some cls \<Rightarrow> (Some TypeError, net))
          else (None, factset_add_fact net f))"

text \<open>
  A caller that goes on after an exception: the facts are added one after the other,
  each to the network the call before it left.
\<close>

fun add_facts :: "env \<Rightarrow> network \<Rightarrow> term_id list \<Rightarrow> network" where
  "add_facts e net [] = net"
| "add_facts e net (f # fs) = add_facts e (snd (add_fact e net f)) fs"

text \<open>\<^verbatim>\<open>RootNode()\<close>, with the id the sequence gives it when it is added to the session.\<close>

definition new_root :: "nat \<Rightarrow> node" where
  "new_root i =
     \<lparr>node_id = i, node_ntype = RootNode, node_var = 0, node_value = None,
      node_parent = None, child_path = []\<rparr>"

text \<open>
  \<^verbatim>\<open>Network.initialize(self)\<close>: create the tables, initialise lexicon and fact set, then
  make a RootNode, assign it to \<^verbatim>\<open>self.root\<close>, add it to the session and commit.
\<close>

definition initialize :: "env \<Rightarrow> network \<Rightarrow> py_error option \<times> network" where
  "initialize e net =
     (let net1 = net\<lparr>net_tables := True\<rparr> in
      case lexicon_initialize e of
        Some err \<Rightarrow> (Some err, net1)
      | None \<Rightarrow>
          (case factset_initialize e of
             Some err \<Rightarrow> (Some err, net1)
           | None \<Rightarrow>
               (None, net1\<lparr>net_nodes := net_nodes net1 @ [new_root (net_next net1)],
                            net_root := Some (net_next net1),
                            net_next := Suc (net_next net1)\<rparr>)))"

text \<open>
  \<^verbatim>\<open>Network.__init__\<close> on a store: \<^verbatim>\<open>self.session.query(RootNode).one()\<close> raises
  OperationalError when the tables do not exist, and only that exception is caught, by
  calling \<^verbatim>\<open>initialize\<close>. \<^verbatim>\<open>one()\<close> raises NoResultFound on no row and
  MultipleResultsFound on several.
\<close>

definition root_rows :: "network \<Rightarrow> node list" where
  "root_rows net = filter (\<lambda>n. node_ntype n = RootNode) (net_nodes net)"

definition Network_init :: "env \<Rightarrow> network \<Rightarrow> py_error option \<times> network" where
  "Network_init e store =
     (if \<not> net_tables store then initialize e (store\<lparr>net_root := None\<rparr>)
      else
        (case root_rows store of
           [] \<Rightarrow> (Some NoResultFound, store\<lparr>net_root := None\<rparr>)
         | [r] \<Rightarrow> (None, store\<lparr>net_root := Some (node_id r)\<rparr>)
         | r # r' # rs \<Rightarrow> (Some MultipleResultsFound, store\<lparr>net_root := None\<rparr>)))"

section \<open>Compiling rules\<close>

text \<open>The dict \<^verbatim>\<open>vars\<close> of \<^verbatim>\<open>add_rule\<close>: a name to the pair of its number and its Varname.\<close>

type_synonym pvars = "(string \<times> (nat \<times> varname)) list"

text \<open>
  Lines 133 to 139 of \<^verbatim>\<open>get_or_create_node\<close>: the number \<^verbatim>\<open>pnum\<close> for a value of the
  given name, and the dict \<^verbatim>\<open>vars\<close> afterwards. \<open>g\<close> is the result of
  \<^verbatim>\<open>patterns.varpat.match(name)\<close>.
\<close>

definition assign_pnum ::
  "pvars \<Rightarrow> string \<Rightarrow> nat option \<Rightarrow> term_id \<Rightarrow> nat \<Rightarrow> nat \<times> pvars" where
  "assign_pnum vars name g t r =
     (case g of
        None \<Rightarrow> (0, vars)
      | Some num \<Rightarrow>
          (case map_of vars name of
             None \<Rightarrow>
               (length vars,
                vars @ [(name, (length vars, \<lparr>vn_name_num = num, vn_var = t, vn_rule = r\<rparr>))])
           | Some pv \<Rightarrow> (fst pv, vars)))"

text \<open>
  \<^verbatim>\<open>Network.get_or_create_node(self, parent, term, path, vars, rule)\<close>. The value is
  \<^verbatim>\<open>cls.resolve(w, path)\<close> with the free name \<^verbatim>\<open>w\<close>; \<^verbatim>\<open>value.name\<close> raises AttributeError
  unless the value is a term. The result is the node, the dict \<^verbatim>\<open>vars\<close> and the network.
\<close>

definition set_child_path :: "nat \<Rightarrow> path \<Rightarrow> node list \<Rightarrow> node list" where
  "set_child_path i p ns =
     map (\<lambda>n. if node_id n = i \<and> child_path n = [] then n\<lparr>child_path := p\<rparr> else n) ns"

definition get_or_create_node ::
  "env \<Rightarrow> network \<Rightarrow> node \<Rightarrow> path \<Rightarrow> pvars \<Rightarrow> nat \<Rightarrow> py_error + (node \<times> pvars \<times> network)" where
  "get_or_create_node e net parent p vars r =
     (if p = [] then Inl IndexError
      else
        (case get_nclass (last p) of
           None \<Rightarrow> Inl AttributeError
         | Some cls \<Rightarrow>
             (case free_w e of
                None \<Rightarrow> Inl NameError
              | Some w \<Rightarrow>
                  (case resolve e cls w p of
                     Inl err \<Rightarrow> Inl err
                   | Inr None \<Rightarrow> Inl AttributeError
                   | Inr (Some (VBool b)) \<Rightarrow> Inl AttributeError
                   | Inr (Some (VStr s)) \<Rightarrow> Inl AttributeError
                   | Inr (Some (VTerm t)) \<Rightarrow>
                       (case assign_pnum vars (term_name e t) (varpat e (term_name e t)) t r of
                          (pnum, vars1) \<Rightarrow>
                            (case filter (\<lambda>c. node_var c = pnum)
                                    (children_with net parent cls (VTerm t)) of
                               [n] \<Rightarrow> Inr (n, vars1, net)
                             | n # n' # ns \<Rightarrow> Inl MultipleResultsFound
                             | [] \<Rightarrow>
                                 (let n = \<lparr>node_id = net_next net, node_ntype = cls,
                                           node_var = pnum, node_value = Some (VTerm t),
                                           node_parent = Some (node_id parent),
                                           child_path = []\<rparr>
                                  in Inr (n, vars1,
                                          net\<lparr>net_nodes :=
                                                 set_child_path (node_id parent) p (net_nodes net) @ [n],
                                               net_next := Suc (net_next net)\<rparr>))))))))"

text \<open>The loop over the paths of one premise; \<^verbatim>\<open>old_node\<close> moves down the tree.\<close>

fun compile_paths ::
  "env \<Rightarrow> network \<Rightarrow> node \<Rightarrow> path list \<Rightarrow> pvars \<Rightarrow> nat \<Rightarrow>
   (py_error \<times> network) + (node \<times> pvars \<times> network)" where
  "compile_paths e net old_node [] vars r = Inr (old_node, vars, net)"
| "compile_paths e net old_node (p # ps) vars r =
     (case get_or_create_node e net old_node p vars r of
        Inl err \<Rightarrow> Inl (err, net)
      | Inr (n, vars1, net1) \<Rightarrow> compile_paths e net1 n ps vars1 r)"

text \<open>
  The end of a premise: the terminal of the last node is reused or created, the rule is
  appended to its \<^verbatim>\<open>rules\<close>, and one PVarname per entry of \<^verbatim>\<open>vars\<close> is appended to
  \<^verbatim>\<open>rule.pvars\<close>. \<open>append_rule\<close> is \<^verbatim>\<open>pnode.rules.append(rule)\<close> on the terminal that
  \<^verbatim>\<open>old_node.terminal\<close> found, the first one whose parent is the node.
\<close>

fun append_rule :: "nat \<Rightarrow> nat \<Rightarrow> premnode list \<Rightarrow> premnode list" where
  "append_rule i r [] = []"
| "append_rule i r (q # qs) =
     (if prem_parent q = i then q\<lparr>prem_rules := prem_rules q @ [r]\<rparr> # qs
      else q # append_rule i r qs)"

definition attach_terminal :: "network \<Rightarrow> node \<Rightarrow> nat \<Rightarrow> nat \<times> network" where
  "attach_terminal net old_node r =
     (case terminal_of net old_node of
        Some pnode \<Rightarrow>
          (prem_id pnode,
           net\<lparr>net_prems := append_rule (node_id old_node) r (net_prems net)\<rparr>)
      | None \<Rightarrow>
          (net_next net,
           net\<lparr>net_prems :=
                 net_prems net @
                 [\<lparr>prem_id = net_next net, prem_parent = node_id old_node,
                   prem_rules = [r], prem_matches = []\<rparr>],
               net_next := Suc (net_next net)\<rparr>))"

fun compile_prems ::
  "env \<Rightarrow> network \<Rightarrow> rule \<Rightarrow> term_id list \<Rightarrow> (py_error \<times> network) + (rule \<times> network)" where
  "compile_prems e net r [] = Inr (r, net)"
| "compile_prems e net r (prem # prems) =
     (case root_node net of
        None \<Rightarrow> Inl (AttributeError, net)
      | Some root \<Rightarrow>
          (case compile_paths e net root (get_paths e prem) [] (rule_id r) of
             Inl failure \<Rightarrow> Inl failure
           | Inr (old_node, vars, net1) \<Rightarrow>
               (case attach_terminal net1 old_node (rule_id r) of
                  (pnode, net2) \<Rightarrow>
                    compile_prems e net2
                      (r\<lparr>rule_pvars := rule_pvars r @
                           map (\<lambda>nv. \<lparr>pv_prem = pnode, pv_num = fst (snd nv),
                                       pv_varname = snd (snd nv)\<rparr>) vars\<rparr>)
                      prems)))"

text \<open>
  \<^verbatim>\<open>Network.add_rule(self, prems, conds, cons)\<close>. The function has no \<^verbatim>\<open>return\<close>
  statement: a call that completes returns \<^verbatim>\<open>None\<close>, the first component of the
  result. The rule object lives in the session from the first
  \<^verbatim>\<open>pnode.rules.append(rule)\<close> on.
\<close>

definition new_rule :: "nat \<Rightarrow> rule" where
  "new_rule i =
     \<lparr>rule_id = i, rule_conds = [], rule_conditions = [], rule_consecuences = [],
      rule_pvars = [], rule_pvn_dict = None\<rparr>"

definition add_rule ::
  "env \<Rightarrow> network \<Rightarrow> term_id list \<Rightarrow> condition list \<Rightarrow> term_id list \<Rightarrow>
   (py_error \<times> network) + (nat option \<times> network)" where
  "add_rule e net prems conds cons =
     (case compile_prems e (net\<lparr>net_next := Suc (net_next net)\<rparr>) (new_rule (net_next net)) prems of
        Inl failure \<Rightarrow> Inl failure
      | Inr (r, net1) \<Rightarrow>
          Inr (None,
               if prems = [] then net1
               else net1\<lparr>net_rules := net_rules net1 @
                          [r\<lparr>rule_conds := conds,
                             rule_consecuences := rule_consecuences r @ cons\<rparr>]\<rparr>))"

section \<open>Firing a rule\<close>

text \<open>
  \<^verbatim>\<open>Condition.test(self, match)\<close>: the arguments come from the free name \<^verbatim>\<open>args\<close>, each
  solved against the match; then the callable of the condition is applied.
\<close>

fun solve_all ::
  "(pdict \<Rightarrow> py_error + pvalue option) list \<Rightarrow> pdict \<Rightarrow> py_error + pvalue option list" where
  "solve_all [] d = Inr []"
| "solve_all (arg # args) d =
     (case arg d of
        Inl err \<Rightarrow> Inl err
      | Inr v \<Rightarrow> (case solve_all args d of Inl err \<Rightarrow> Inl err | Inr vs \<Rightarrow> Inr (v # vs)))"

definition Condition_test :: "env \<Rightarrow> condition \<Rightarrow> pmatch \<Rightarrow> py_error + bool" where
  "Condition_test e c m =
     (case free_args e of
        None \<Rightarrow> Inl NameError
      | Some args \<Rightarrow>
          (case solve_all args (match_items m) of
             Inl err \<Rightarrow> Inl err
           | Inr sargs \<Rightarrow> cond_fun e (cond_fpath c) sargs))"

text \<open>
  \<^verbatim>\<open>Rule.get_pvarname(name)\<close>, that is \<^verbatim>\<open>_get_vname(name, '_pvn_dict', 'pvars')\<close>. With
  the attribute present the name is looked up (a KeyError is not caught). Without it the
  handler sets it to an empty dict and reads \<^verbatim>\<open>vn.name\<close> of each element of
  \<^verbatim>\<open>self.pvars\<close>; PVarname has no \<^verbatim>\<open>name\<close>, so this raises AttributeError unless there is
  no element, when the result is \<^verbatim>\<open>None\<close>.
\<close>

definition get_pvarname :: "rule \<Rightarrow> pvn_key \<Rightarrow> (py_error + pvarname option) \<times> rule" where
  "get_pvarname r name =
     (case rule_pvn_dict r of
        Some d \<Rightarrow>
          (case map_of d name of
             None \<Rightarrow> (Inl KeyError, r)
           | Some vn \<Rightarrow> (Inr (Some vn), r))
      | None \<Rightarrow>
          (if rule_pvars r = [] then (Inr None, r\<lparr>rule_pvn_dict := Some []\<rparr>)
           else (Inl AttributeError, r\<lparr>rule_pvn_dict := Some []\<rparr>)))"

text \<open>\<^verbatim>\<open>str\<close> of a number, for \<^verbatim>\<open>Varname.name\<close>, which is \<^verbatim>\<open>self.var.name + str(self.name_num)\<close>.\<close>

fun str_nat :: "nat \<Rightarrow> string" where
  "str_nat n =
     (if n < 10 then [char_of (48 + n)]
      else str_nat (n div 10) @ [char_of (48 + n mod 10)])"

definition Varname_name :: "env \<Rightarrow> varname \<Rightarrow> string" where
  "Varname_name e vn = term_name e (vn_var vn) @ str_nat (vn_name_num vn)"

text \<open>
  The first loop of \<^verbatim>\<open>Rule.dispatch\<close>, over \<^verbatim>\<open>match.items()\<close>: each number is translated
  to the name of a variable and \<^verbatim>\<open>new_match\<close> is filled. \<^verbatim>\<open>pvar.varname\<close> raises
  AttributeError when \<^verbatim>\<open>get_pvarname\<close> returned \<^verbatim>\<open>None\<close>.
\<close>

fun translate ::
  "env \<Rightarrow> rule \<Rightarrow> nat option \<Rightarrow> (dkey \<times> pvalue) list \<Rightarrow> pdict \<Rightarrow> (py_error + pdict) \<times> rule" where
  "translate e r prem [] new_match = (Inr new_match, r)"
| "translate e r prem ((num, ob) # kvs) new_match =
     (case get_pvarname r (prem, num) of
        (Inl err, r1) \<Rightarrow> (Inl err, r1)
      | (Inr None, r1) \<Rightarrow> (Inl AttributeError, r1)
      | (Inr (Some pvar), r1) \<Rightarrow>
          translate e r1 prem kvs
            (setitem new_match (KStr (Varname_name e (pv_varname pvar))) ob))"

text \<open>
  The loop over \<^verbatim>\<open>self.conditions\<close>. Besides the result (an exception, or whether all
  conditions held) it gives the conditions whose \<^verbatim>\<open>test\<close> was called, in order.
\<close>

fun test_conditions ::
  "env \<Rightarrow> condition list \<Rightarrow> pmatch \<Rightarrow> (py_error + bool) \<times> condition list" where
  "test_conditions e [] m = (Inr True, [])"
| "test_conditions e (c # cs) m =
     (case Condition_test e c m of
        Inl err \<Rightarrow> (Inl err, [c])
      | Inr b \<Rightarrow>
          if \<not> b then (Inr False, [c])
          else (case test_conditions e cs m of (res, tested) \<Rightarrow> (res, c # tested)))"

text \<open>The loop over \<^verbatim>\<open>self.consecuences\<close>: \<^verbatim>\<open>network.add_fact(con.substitute(match))\<close>.\<close>

fun assert_consecuences ::
  "env \<Rightarrow> network \<Rightarrow> term_id list \<Rightarrow> pmatch \<Rightarrow> py_error option \<times> network" where
  "assert_consecuences e net [] m = (None, net)"
| "assert_consecuences e net (con # cons) m =
     (case substitute e con (match_items m) of
        Inl err \<Rightarrow> (Some err, net)
      | Inr f \<Rightarrow>
          (case add_fact e net f of
             (Some err, net1) \<Rightarrow> (Some err, net1)
           | (None, net1) \<Rightarrow> assert_consecuences e net1 cons m))"

text \<open>
  \<^verbatim>\<open>Rule.dispatch(self, match, network)\<close>. The result is the exception raised, if any,
  the conditions tested, the rule object (its \<^verbatim>\<open>_pvn_dict\<close> may have been set) and the
  network. The last statement reads the free name \<^verbatim>\<open>new\<close>.
\<close>

definition Rule_dispatch ::
  "env \<Rightarrow> network \<Rightarrow> rule \<Rightarrow> pmatch \<Rightarrow> py_error option \<times> condition list \<times> rule \<times> network" where
  "Rule_dispatch e net r m =
     (case translate e r (match_prem m) (match_items m) [] of
        (Inl err, r1) \<Rightarrow> (Some err, [], r1, net)
      | (Inr new_match, r1) \<Rightarrow>
          (case test_conditions e (rule_conditions r1) m of
             (Inl err, tested) \<Rightarrow> (Some err, tested, r1, net)
           | (Inr False, tested) \<Rightarrow> (None, tested, r1, net)
           | (Inr True, tested) \<Rightarrow>
               (case assert_consecuences e net (rule_consecuences r1) m of
                  (Some err, net1) \<Rightarrow> (Some err, tested, r1, net1)
                | (None, net1) \<Rightarrow>
                    (case free_new e of
                       None \<Rightarrow> (Some NameError, tested, r1, net1)
                     | Some b \<Rightarrow> (None, tested, r1, net1)))))"

section \<open>Stored matches\<close>

text \<open>The premise terminals of a network, each with the list of matches it stores.\<close>

definition stored_matches :: "network \<Rightarrow> (nat \<times> pdict list) list" where
  "stored_matches net = map (\<lambda>p. (prem_id p, prem_matches p)) (net_prems net)"


section \<open>Example inputs\<close>

text \<open>
  A lexicon with one variable term, \<open>5\<close>, named \<^verbatim>\<open>X1\<close>; every other term is a constant
  named \<^verbatim>\<open>john\<close>. All terms have the type \<open>0\<close>, no term has an object. The premise
  \<open>10\<close> has the single path \<^verbatim>\<open>('_term',)\<close>, every other fact has no path. The free name
  \<^verbatim>\<open>w\<close> is bound to the variable term, \<^verbatim>\<open>args\<close> to the empty list. The condition
  \<^verbatim>\<open>no\<close> returns false, \<^verbatim>\<open>boom\<close> raises, every other condition returns true.
\<close>

definition env0 :: env where
  "env0 =
     \<lparr>get_object = (\<lambda>t s. None), term_true = (\<lambda>t. True),
      term_name = (\<lambda>t. if t = 5 then ''X1'' else ''john''),
      term_type = (\<lambda>t. 0), term_var = (\<lambda>t. t = 5),
      term_bases = (\<lambda>t. []), get_bases = (\<lambda>t. []), isa_thing = (\<lambda>t. True),
      varpat = (\<lambda>s. if s = ''X1'' then Some 1 else None),
      get_paths = (\<lambda>t. if t = 10 then [[''_term'']] else []),
      substitute = (\<lambda>con d. Inr con),
      cond_fun = (\<lambda>fpath sargs. if fpath = ''no'' then Inr False
                                  else if fpath = ''boom'' then Inl (Raised 1) else Inr True),
      free_args = Some [],
      lexicon_initialize = None, factset_initialize = None,
      free_w = Some 5, free_new = Some False\<rparr>"

text \<open>
  The same lexicon with the names \<^verbatim>\<open>w\<close>, \<^verbatim>\<open>args\<close> and \<^verbatim>\<open>new\<close> unbound, as the file
  leaves them.
\<close>

definition env_src :: env where
  "env_src = env0\<lparr>free_w := None, free_args := None, free_new := None\<rparr>"


text \<open>The network after \<^verbatim>\<open>initialize\<close> on an empty store.\<close>

definition net0 :: network where
  "net0 =
     \<lparr>net_tables = True, net_nodes = [new_root 0], net_prems = [], net_rules = [],
      net_facts = [], net_root = Some 0, net_next = 1\<rparr>"

text \<open>
  A store whose root tests \<^verbatim>\<open>('_term',)\<close> and has one child, the variable term in slot
  1, with a premise terminal of rule 3.
\<close>

definition root_term :: node where
  "root_term = (new_root 0)\<lparr>child_path := [''_term'']\<rparr>"

definition child_slot :: node where
  "child_slot =
     \<lparr>node_id = 1, node_ntype = TermNode, node_var = 1, node_value = Some (VTerm 5),
      node_parent = Some 0, child_path = []\<rparr>"

definition net_slot :: network where
  "net_slot =
     \<lparr>net_tables = True, net_nodes = [root_term, child_slot],
      net_prems = [\<lparr>prem_id = 2, prem_parent = 1, prem_rules = [3], prem_matches = []\<rparr>],
      net_rules = [new_rule 3], net_facts = [], net_root = Some 0, net_next = 4\<rparr>"





text \<open>
  A store whose root tests the negation of the object \<^verbatim>\<open>subj\<close>, with one NegNode child.
\<close>

definition root_neg :: node where
  "root_neg = (new_root 0)\<lparr>child_path := [''subj'', ''_neg'']\<rparr>"

definition child_neg :: node where
  "child_neg =
     \<lparr>node_id = 1, node_ntype = NegNode, node_var = 0, node_value = Some (VBool True),
      node_parent = Some 0, child_path = []\<rparr>"

definition net_neg :: network where
  "net_neg =
     \<lparr>net_tables = True, net_nodes = [root_neg, child_neg], net_prems = [], net_rules = [],
      net_facts = [], net_root = Some 0, net_next = 2\<rparr>"

text \<open>
  A store with the rule 5 of two premises: the terminals 3 and 4 sit below the literal
  terms 20 and 21.
\<close>

definition net_pair :: network where
  "net_pair =
     \<lparr>net_tables = True,
      net_nodes =
        [root_term,
         \<lparr>node_id = 1, node_ntype = TermNode, node_var = 0, node_value = Some (VTerm 20),
          node_parent = Some 0, child_path = []\<rparr>,
         \<lparr>node_id = 2, node_ntype = TermNode, node_var = 0, node_value = Some (VTerm 21),
          node_parent = Some 0, child_path = []\<rparr>],
      net_prems =
        [\<lparr>prem_id = 3, prem_parent = 1, prem_rules = [5], prem_matches = []\<rparr>,
         \<lparr>prem_id = 4, prem_parent = 2, prem_rules = [5], prem_matches = []\<rparr>],
      net_rules = [(new_rule 5)\<lparr>rule_consecuences := [30]\<rparr>],
      net_facts = [], net_root = Some 0, net_next = 6\<rparr>"

text \<open>
  Three conditions: the second returns false, the others true. \<open>rule_no\<close> holds them in
  \<^verbatim>\<open>conditions\<close>, where \<^verbatim>\<open>Rule.dispatch\<close> reads them. \<open>rule_installed\<close> holds them in
  \<^verbatim>\<open>conds\<close>, where \<^verbatim>\<open>add_rule\<close> puts them, and \<open>net_rule\<close> is the store in which it is
  installed, with one premise that has no path. Both rules have the consequence 30.
\<close>

definition cond_yes :: condition where
  "cond_yes = \<lparr>cond_id = 0, cond_fpath = ''yes''\<rparr>"

definition cond_no :: condition where
  "cond_no = \<lparr>cond_id = 1, cond_fpath = ''no''\<rparr>"

definition cond_later :: condition where
  "cond_later = \<lparr>cond_id = 3, cond_fpath = ''later''\<rparr>"

definition rule_no :: rule where
  "rule_no =
     (new_rule 3)\<lparr>rule_conditions := [cond_yes, cond_no, cond_later],
                   rule_consecuences := [30]\<rparr>"

definition rule_installed :: rule where
  "rule_installed =
     (new_rule 1)\<lparr>rule_conds := [cond_yes, cond_no, cond_later],
                   rule_consecuences := [30]\<rparr>"

definition net_rule :: network where
  "net_rule =
     net0\<lparr>net_prems := [\<lparr>prem_id = 2, prem_parent = 0, prem_rules = [1], prem_matches = []\<rparr>],
          net_rules := [rule_installed], net_next := 3\<rparr>"

section \<open>Match.merge\<close>

text \<open>
  C4. Merging an empty binding with a binding that holds one entry raises KeyError: the
  two bindings share no variable, so the claim promises their union and no exception.
\<close>

theorem merge_raises_KeyError:
  "merge (Match 0 None) ((Match 0 None)\<lparr>match_items := [(KInt 1, VTerm 7)]\<rparr>) = Inl KeyError"
  by (simp add: merge_def Match_def contains_def getitem_def)

section \<open>Children selected for an unresolved feature\<close>

text \<open>
  C2, as stated, fails. For a NegNode path whose object the fact lacks, \<^verbatim>\<open>resolve\<close>
  gives \<^verbatim>\<open>None\<close> and \<^verbatim>\<open>Node.dispatch\<close> selects the child of the parent, where the claim
  promises no child for a value-bearing kind. (Iterating over the selected node then
  raises TypeError.)
\<close>

theorem select_children_unresolved_NegNode:
  "resolve env0 NegNode 7 [''subj'', ''_neg''] = Inr None \<and>
   select_children env0 net_neg root_neg (Match 7 None) = Inr (Flat [child_neg]) \<and>
   fst (Node_dispatch 2 env0 net_neg root_neg 0 ([Match 7 None], [])) = Some TypeError"
  by (simp add: numeral_2_eq_2 select_children_def root_neg_def new_root_def get_nclass_def
      resolve_def env0_def children_of_def net_neg_def child_neg_def Match_def)

text \<open>
  C2, amended. Whenever \<^verbatim>\<open>resolve\<close> yields \<^verbatim>\<open>None\<close>, \<^verbatim>\<open>Node.dispatch\<close> selects all the
  children of the parent, whatever the class of the path; and \<^verbatim>\<open>LabelNode.resolve\<close>
  never yields \<^verbatim>\<open>None\<close>.
\<close>

theorem select_children_None:
  "(get_nclass (last (child_path parent)) = Some cls \<and>
    resolve e cls (match_fact m) (child_path parent) = Inr None \<longrightarrow>
    select_children e net parent m = Inr (Flat (children_of net parent))) \<and>
   resolve e LabelNode t p \<noteq> Inr None"
  by (simp add: select_children_def resolve_def)

text \<open>The amended C2 at the NegNode path above: all children of the root are selected.\<close>

theorem select_children_None_witness:
  "get_nclass (last (child_path root_neg)) = Some NegNode \<and>
   resolve env0 NegNode (match_fact (Match 7 None)) (child_path root_neg) = Inr None \<and>
   select_children env0 net_neg root_neg (Match 7 None) =
     Inr (Flat (children_of net_neg root_neg)) \<and>
   children_of net_neg root_neg = [child_neg]"
proof -
  have h1: "get_nclass (last (child_path root_neg)) = Some NegNode"
    by (simp add: root_neg_def get_nclass_def)
  have h2: "resolve env0 NegNode (match_fact (Match 7 None)) (child_path root_neg) = Inr None"
    by (simp add: root_neg_def resolve_def env0_def)
  have h3: "children_of net_neg root_neg = [child_neg]"
    by (simp add: children_of_def net_neg_def root_neg_def child_neg_def new_root_def)
  from select_children_None [of root_neg NegNode env0 "Match 7 None" net_neg] h1 h2 h3
  show ?thesis by simp
qed

section \<open>Slot numbers\<close>

text \<open>
  C3 fails on the code by one: the first variable of a premise (here the term 5, named
  \<^verbatim>\<open>X1\<close>, with an empty \<^verbatim>\<open>vars\<close>) is given the number 0, and compiling its path creates a
  node with \<^verbatim>\<open>var = 0\<close>, the number of a node that is no variable.
\<close>

theorem first_variable_gets_slot_zero:
  "varpat env0 (term_name env0 5) = Some 1 \<and>
   assign_pnum [] ''X1'' (Some 1) 5 1 =
     (0, [(''X1'', (0, \<lparr>vn_name_num = 1, vn_var = 5, vn_rule = 1\<rparr>))]) \<and>
   get_or_create_node env0 net0 (new_root 0) [''_term''] [] 1 =
     Inr (\<lparr>node_id = 1, node_ntype = TermNode, node_var = 0, node_value = Some (VTerm 5),
           node_parent = Some 0, child_path = []\<rparr>,
          [(''X1'', (0, \<lparr>vn_name_num = 1, vn_var = 5, vn_rule = 1\<rparr>))],
          net0\<lparr>net_nodes :=
                 [(new_root 0)\<lparr>child_path := [''_term'']\<rparr>,
                  \<lparr>node_id = 1, node_ntype = TermNode, node_var = 0,
                   node_value = Some (VTerm 5), node_parent = Some 0, child_path = []\<rparr>],
               net_next := 2\<rparr>)"
  by (simp add: get_or_create_node_def get_nclass_def env0_def resolve_def assign_pnum_def
      children_with_def children_of_def net0_def new_root_def set_child_path_def Let_def
      numeral_2_eq_2)

section \<open>Dispatch leaves the caller's match alone\<close>












section \<open>Firing a rule: conditions\<close>

text \<open>
  C5 fails on the code. \<^verbatim>\<open>Condition.test\<close> reads the name \<^verbatim>\<open>args\<close>, which the file never
  binds, so every test raises NameError and no condition returns false. And
  \<^verbatim>\<open>add_rule\<close> stores the conditions under \<^verbatim>\<open>conds\<close> while \<^verbatim>\<open>Rule.dispatch\<close> reads
  \<^verbatim>\<open>conditions\<close>: the rule installed with the conditions yes, no, later tests none of
  them and asserts its consequence 30 (the NameError that follows comes from the name
  \<^verbatim>\<open>new\<close> of the last line). With the conditions where \<^verbatim>\<open>Rule.dispatch\<close> reads them, the
  first test raises.
\<close>

theorem conditions_never_return_false:
  "Condition_test (e\<lparr>free_args := None\<rparr>) c m = Inl NameError \<and>
   add_rule env_src net0 [3] [cond_yes, cond_no, cond_later] [30] = Inr (None, net_rule) \<and>
   Rule_dispatch env_src net_rule rule_installed (Match 7 None) =
     (Some NameError, [], rule_installed, net_rule\<lparr>net_facts := [30]\<rparr>) \<and>
   Rule_dispatch env_src net0 rule_no (Match 7 None) =
     (Some NameError, [cond_yes], rule_no, net0)"
proof -
  have a: "Condition_test (e\<lparr>free_args := None\<rparr>) c m = Inl NameError"
    by (simp add: Condition_test_def)
  have b: "add_rule env_src net0 [3] [cond_yes, cond_no, cond_later] [30] = Inr (None, net_rule)"
    by (simp add: add_rule_def env_src_def env0_def net0_def root_node_def node_by_id_def
        new_root_def attach_terminal_def terminal_of_def new_rule_def net_rule_def
        rule_installed_def numeral_2_eq_2 numeral_3_eq_3)
  have c: "Rule_dispatch env_src net_rule rule_installed (Match 7 None) =
     (Some NameError, [], rule_installed, net_rule\<lparr>net_facts := [30]\<rparr>)"
    by (simp add: Rule_dispatch_def Match_def rule_installed_def new_rule_def env_src_def
        env0_def add_fact_def factset_add_fact_def root_node_def node_by_id_def net_rule_def
        net0_def new_root_def)
  have d: "Rule_dispatch env_src net0 rule_no (Match 7 None) =
     (Some NameError, [cond_yes], rule_no, net0)"
    by (simp add: Rule_dispatch_def Match_def rule_no_def new_rule_def Condition_test_def
        env_src_def env0_def)
  from a b c d show ?thesis by blast
qed

section \<open>Adding facts\<close>

text \<open>
  C1 fails on the code. The rule 5 of \<open>net_pair\<close> has two premises, met by the facts 20 and
  21. Adding either fact raises TypeError and leaves the network as it was, so adding
  them in either order fires nothing; and \<^verbatim>\<open>Node.dispatch\<close>, called with its three
  arguments, raises TypeError at the premise terminal.
\<close>

theorem add_fact_raises_TypeError:
  "add_fact env0 net_pair 20 = (Some TypeError, net_pair) \<and>
   add_fact env0 net_pair 21 = (Some TypeError, net_pair) \<and>
   fst (Node_dispatch 3 env0 net_pair root_term 0 ([Match 20 None], [])) = Some TypeError"
  by (simp add: add_fact_def root_node_def node_by_id_def net_pair_def root_term_def new_root_def
      get_nclass_def numeral_3_eq_3 select_children_def
      resolve_def env0_def get_children_def first_bound_def children_with_def children_of_def
      var_children_def type_in_def base_in_def child_match_def
      Match_copy_def Match_def contains_def setitem_def terminal_of_def PremNode_dispatch_def)

section \<open>Stored matches are kept\<close>

lemma add_fact_prems: "net_prems (snd (add_fact e net f)) = net_prems net"
  by (simp add: add_fact_def factset_add_fact_def split: option.split)

lemma add_facts_prems: "net_prems (add_facts e net fs) = net_prems net"
  by (induction fs arbitrary: net) (simp_all add: add_fact_prems)

lemma get_or_create_node_keeps:
  "get_or_create_node e net parent p vars r = Inr (n, vars1, net1) \<Longrightarrow>
   net_prems net1 = net_prems net \<and> net_rules net1 = net_rules net \<and> net_root net1 = net_root net"
  by (auto simp: get_or_create_node_def Let_def
           split: if_splits option.splits sum.splits pvalue.splits prod.splits list.splits)

lemma compile_paths_keeps:
  "(case compile_paths e net old_node ps vars r of
      Inl (err, net1) \<Rightarrow> net_prems net1 = net_prems net \<and> net_rules net1 = net_rules net
    | Inr (n, vars1, net1) \<Rightarrow> net_prems net1 = net_prems net \<and> net_rules net1 = net_rules net)"
proof (induction ps arbitrary: net old_node vars)
  case Nil
  then show ?case by simp
next
  case (Cons p ps)
  show ?case
  proof (cases "get_or_create_node e net old_node p vars r")
    case (Inl err)
    then show ?thesis by simp
  next
    case (Inr res)
    obtain n vars1 net1 where res: "res = (n, vars1, net1)" by (cases res)
    have k: "net_prems net1 = net_prems net \<and> net_rules net1 = net_rules net"
      using get_or_create_node_keeps Inr res by blast
    show ?thesis
      using Cons.IH [where net=net1 and old_node=n and vars=vars1] k
      by (auto simp: Inr res split: sum.splits prod.splits)
  qed
qed

lemma append_rule_keeps:
  "map (\<lambda>p. (prem_id p, prem_matches p)) (append_rule i r ps) =
   map (\<lambda>p. (prem_id p, prem_matches p)) ps"
  by (induction ps) simp_all

lemma attach_terminal_prefix:
  "prefix (stored_matches net) (stored_matches (snd (attach_terminal net old_node r)))"
  by (cases "terminal_of net old_node")
     (simp_all add: attach_terminal_def stored_matches_def append_rule_keeps)

lemma attach_terminal_rules: "net_rules (snd (attach_terminal net old_node r)) = net_rules net"
  by (simp add: attach_terminal_def split: option.split)

lemma compile_prems_keeps:
  "(case compile_prems e net r prems of
      Inl (err, net1) \<Rightarrow> prefix (stored_matches net) (stored_matches net1)
    | Inr (r1, net1) \<Rightarrow>
        prefix (stored_matches net) (stored_matches net1) \<and>
        net_rules net1 = net_rules net \<and> rule_id r1 = rule_id r)"
proof (induction prems arbitrary: net r)
  case Nil
  then show ?case by simp
next
  case (Cons prem prems)
  show ?case
  proof (cases "root_node net")
    case None
    then show ?thesis by simp
  next
    case (Some root)
    show ?thesis
    proof (cases "compile_paths e net root (get_paths e prem) [] (rule_id r)")
      case (Inl failure)
      obtain err net1 where f: "failure = (err, net1)" by (cases failure)
      have "net_prems net1 = net_prems net"
        using compile_paths_keeps [where e=e and net=net and old_node=root
            and ps="get_paths e prem" and vars="[]" and r="rule_id r"] Inl f by simp
      then show ?thesis by (simp add: Some Inl f stored_matches_def)
    next
      case (Inr res)
      obtain old_node vars net1 where res: "res = (old_node, vars, net1)" by (cases res)
      have k: "net_prems net1 = net_prems net \<and> net_rules net1 = net_rules net"
        using compile_paths_keeps [where e=e and net=net and old_node=root
            and ps="get_paths e prem" and vars="[]" and r="rule_id r"] Inr res by simp
      obtain pnode net2 where at: "attach_terminal net1 old_node (rule_id r) = (pnode, net2)"
        by (cases "attach_terminal net1 old_node (rule_id r)")
      have p2: "prefix (stored_matches net) (stored_matches net2)"
        using attach_terminal_prefix [of net1 old_node "rule_id r"] at k
        by (simp add: stored_matches_def)
      have r2: "net_rules net2 = net_rules net"
        using attach_terminal_rules [of net1 old_node "rule_id r"] at k by simp
      let ?r = "r\<lparr>rule_pvars := rule_pvars r @
                           map (\<lambda>nv. \<lparr>pv_prem = pnode, pv_num = fst (snd nv),
                                       pv_varname = snd (snd nv)\<rparr>) vars\<rparr>"
      have ih: "(case compile_prems e net2 ?r prems of
                  Inl (err, net3) \<Rightarrow> prefix (stored_matches net2) (stored_matches net3)
                | Inr (r1, net3) \<Rightarrow>
                    prefix (stored_matches net2) (stored_matches net3) \<and>
                    net_rules net3 = net_rules net2 \<and> rule_id r1 = rule_id ?r)"
        by (rule Cons.IH)
      have eq: "compile_prems e net r (prem # prems) = compile_prems e net2 ?r prems"
        by (simp add: Some Inr res at)
      show ?thesis
        unfolding eq using ih p2 r2
        by (auto split: sum.splits prod.splits intro: prefix_order.trans)
    qed
  qed
qed

text \<open>
  C7. After any sequence of \<^verbatim>\<open>add_fact\<close> calls, after \<^verbatim>\<open>initialize\<close> and after
  \<^verbatim>\<open>add_rule\<close>, whether it completes or raises, the premise terminals that existed are
  still there, in their order and each with the matches it stored: the list of
  terminals with their matches can only get longer at its end, by new terminals. No
  match is deleted or overwritten, and no match set gets smaller.
\<close>

theorem matches_only_grow:
  "prefix (stored_matches net) (stored_matches (add_facts e net fs)) \<and>
   prefix (stored_matches net) (stored_matches (snd (initialize e net))) \<and>
   (case add_rule e net prems conds cons of
      Inl (err, net1) \<Rightarrow> prefix (stored_matches net) (stored_matches net1)
    | Inr (ret, net1) \<Rightarrow> prefix (stored_matches net) (stored_matches net1))"
proof -
  have a: "prefix (stored_matches net) (stored_matches (add_facts e net fs))"
    by (simp add: stored_matches_def add_facts_prems)
  have b: "prefix (stored_matches net) (stored_matches (snd (initialize e net)))"
    by (simp add: stored_matches_def initialize_def Let_def split: option.split)
  have s: "stored_matches (net\<lparr>net_next := Suc (net_next net)\<rparr>) = stored_matches net"
    by (simp add: stored_matches_def)
  have c: "(case add_rule e net prems conds cons of
      Inl (err, net1) \<Rightarrow> prefix (stored_matches net) (stored_matches net1)
    | Inr (ret, net1) \<Rightarrow> prefix (stored_matches net) (stored_matches net1))"
    using compile_prems_keeps [where e=e and net="net\<lparr>net_next := Suc (net_next net)\<rparr>"
        and r="new_rule (net_next net)" and prems=prems] s
    by (auto simp: add_rule_def stored_matches_def split: sum.splits prod.splits)
  from a b c show ?thesis by blast
qed

section \<open>Initialisation\<close>

text \<open>
  C8, as stated, fails. \<^verbatim>\<open>initialize\<close> on the store that already holds the root 0
  creates the root 1 and makes it \<^verbatim>\<open>self.root\<close>: the store has two roots afterwards and
  differs from the store before.
\<close>

theorem initialize_creates_second_root:
  "initialize env0 net0 =
     (None, net0\<lparr>net_nodes := [new_root 0, new_root 1], net_root := Some 1, net_next := 2\<rparr>) \<and>
   root_rows (snd (initialize env0 net0)) = [new_root 0, new_root 1] \<and>
   snd (initialize env0 net0) \<noteq> net0"
  by (simp add: initialize_def env0_def net0_def root_rows_def new_root_def Let_def
      numeral_2_eq_2)

text \<open>
  C8, amended. \<^verbatim>\<open>initialize\<close>, when it completes, appends a new root to the nodes of the
  store and makes it \<^verbatim>\<open>self.root\<close>. The existing root is reused by \<^verbatim>\<open>Network.__init__\<close>:
  on a store with tables and exactly one root it takes that root and changes nothing
  else.
\<close>

theorem initialize_adds_root:
  "(initialize e net = (None, net') \<longrightarrow>
      net_nodes net' = net_nodes net @ [new_root (net_next net)] \<and>
      net_root net' = Some (net_next net)) \<and>
   (net_tables store \<and> root_rows store = [r] \<longrightarrow>
      Network_init e store = (None, store\<lparr>net_root := Some (node_id r)\<rparr>))"
  by (auto simp: initialize_def Network_init_def Let_def split: option.splits)

text \<open>The amended C8 on the store with the single root 0.\<close>

theorem initialize_adds_root_witness:
  "initialize env0 net0 =
     (None, net0\<lparr>net_nodes := [new_root 0, new_root 1], net_root := Some 1, net_next := 2\<rparr>) \<and>
   net_nodes (net0\<lparr>net_nodes := [new_root 0, new_root 1], net_root := Some 1, net_next := 2\<rparr>) =
     net_nodes net0 @ [new_root (net_next net0)] \<and>
   net_tables net0 \<and> root_rows net0 = [new_root 0] \<and>
   Network_init env0 net0 = (None, net0)"
proof -
  have h1: "initialize env0 net0 =
     (None, net0\<lparr>net_nodes := [new_root 0, new_root 1], net_root := Some 1, net_next := 2\<rparr>)"
    by (simp add: initialize_def env0_def net0_def Let_def numeral_2_eq_2)
  have h2: "net_tables net0 \<and> root_rows net0 = [new_root 0]"
    by (simp add: net0_def root_rows_def new_root_def)
  have h3: "net0\<lparr>net_root := Some (node_id (new_root 0))\<rparr> = net0"
    by (simp add: net0_def new_root_def)
  from initialize_adds_root [of env0 net0
      "net0\<lparr>net_nodes := [new_root 0, new_root 1], net_root := Some 1, net_next := 2\<rparr>"
      net0 "new_root 0"] h1 h2 h3
  show ?thesis by (simp add: net0_def)
qed

section \<open>The result of add_rule\<close>








end
